theory Spec2Isabelle
  imports Complex_Main
begin

section \<open>Values held in the form\<close>

text \<open>
  A Number is an IEEE double: \<^verbatim>\<open>NaN\<close>, an infinity with its sign (\<open>True\<close> is
  negative), or a finite double, given by its exact value. A negative zero is not told
  from zero.
\<close>

datatype jsnum = NaN | Infinity bool | Finite rat

text \<open>
  The form data is a \<^verbatim>\<open>Record<string, unknown>\<close>: a field value is any JavaScript
  value. \<open>JCyclic\<close> stands for an object or array that contains itself.
\<close>

datatype jsval =
    JUndefined
  | JNull
  | JBool bool
  | JNum jsnum
  | JBigInt int
  | JStr string
  | JArr "jsval list"
  | JObj "(string \<times> jsval) list"
  | JCyclic

type_synonym ActionFormData = "string \<rightharpoonup> jsval"

section \<open>The envelope pushed by Action Center\<close>

text \<open>
  \<^verbatim>\<open>ActionCenterData\<close>, with the fields the hook reads. Every field may be missing
  (\<open>None\<close> is \<^verbatim>\<open>undefined\<close>).
\<close>

record ActionCenterData =
  ac_data :: "ActionFormData option"
  ac_baseUrl :: "string option"
  ac_orgName :: "string option"
  ac_tenantName :: "string option"
  ac_token :: "string option"
  ac_newToken :: "string option"
  ac_theme :: "string option"
  ac_newTheme :: "string option"
  ac_language :: "string option"
  ac_newLanguage :: "string option"
  ac_isReadOnly :: "bool option"

section \<open>The SDK module (lib/uipath.ts)\<close>

text \<open>The client \<^verbatim>\<open>new UiPath({baseUrl, orgName, tenantName, secret})\<close>.\<close>

record UiPath =
  baseUrl :: string
  orgName :: string
  tenantName :: string
  secret :: string

text \<open>The argument of \<^verbatim>\<open>initializeSdk\<close>.\<close>

record RuntimeConfig =
  cfg_baseUrl :: string
  cfg_orgName :: string
  cfg_tenantName :: string
  cfg_token :: string

section \<open>Calls to the host and their effects\<close>

text \<open>
  The calls the hook makes on \<^verbatim>\<open>sdk.taskEvents\<close>. Whether a call returns or throws is
  decided by the host: \<open>host c\<close> holds when the call \<open>c\<close> returns normally. In preview
  mode no call does.
\<close>

datatype host_call =
    GetTaskDetailsFromActionCenter
  | InitializeInActionCenter
  | DataChanged ActionFormData
  | CompleteTask string ActionFormData

type_synonym host = "host_call \<Rightarrow> bool"

text \<open>
  What the session does to the outside, in order: a call on \<^verbatim>\<open>sdk.taskEvents\<close> (recorded
  when it is made, whether or not it throws), and the \<^verbatim>\<open>alert\<close> of \<^verbatim>\<open>completeTask\<close>,
  whose message is built from the outcome and \<^verbatim>\<open>JSON.stringify(formData, null, 2)\<close>.
  Console output is diagnostic and is not recorded.
\<close>

datatype effect =
    TaskEvent host_call
  | Alert string ActionFormData

section \<open>The state of a session\<close>

text \<open>
  The React state and refs of \<^verbatim>\<open>useActionContext\<close>, the two module variables of
  lib/uipath.ts, and the effects so far. \<open>formData\<close> is the state cell, which an
  update changes at once. \<open>renderedFormData\<close> is the \<^verbatim>\<open>formData\<close> of the last render:
  the value a callback made by \<^verbatim>\<open>useCallback(..., [formData])\<close> closes over, which only
  the next render brings up to date.
\<close>

record session =
  taskData :: "ActionCenterData option"
  formData :: ActionFormData
  renderedFormData :: ActionFormData
  theme :: "string option"
  language :: string
  hasActionCenterData :: bool
  initialDataRef :: ActionFormData
  isInitializedRef :: bool
  sdk :: UiPath
  sdkInitialized :: bool
  effects :: "effect list"

text \<open>
  Modelled from the spec: the declaration of the enum \<^verbatim>\<open>Theme\<close> (types/action-schema)
  is not among the sources, and the specification gives a theme no values. Its member
  \<^verbatim>\<open>Light\<close>, the initial theme in the source, is represented by its name; no
  property below depends on it.
\<close>

definition Theme_Light :: string where
  "Theme_Light = ''light''"

text \<open>
  The first render: \<^verbatim>\<open>initialData = {}\<close> when the option is missing. The client the
  module starts with is built from the environment and is a parameter.
\<close>

definition initialData :: "ActionFormData option \<Rightarrow> ActionFormData" where
  "initialData options = (case options of None \<Rightarrow> Map.empty | Some d \<Rightarrow> d)"

definition useActionContext :: "UiPath \<Rightarrow> ActionFormData option \<Rightarrow> session" where
  "useActionContext env_client options =
     \<lparr> taskData = None,
       formData = initialData options,
       renderedFormData = initialData options,
       theme = Some Theme_Light,
       language = ''en'',
       hasActionCenterData = False,
       initialDataRef = initialData options,
       isInitializedRef = False,
       sdk = env_client,
       sdkInitialized = False,
       effects = [] \<rparr>"

text \<open>\<^verbatim>\<open>isReadOnly: taskData?.isReadOnly ?? false\<close>\<close>

definition isReadOnly :: "session \<Rightarrow> bool" where
  "isReadOnly s =
     (case taskData s of
        None \<Rightarrow> False
      | Some d \<Rightarrow> (case ac_isReadOnly d of None \<Rightarrow> False | Some b \<Rightarrow> b))"

section \<open>Exceptions\<close>

text \<open>
  A statement either returns or throws; the state it leaves is there in both cases.
\<close>

datatype 'a outcome = Returned 'a | Threw 'a

fun state_of :: "'a outcome \<Rightarrow> 'a" where
  "state_of (Returned s) = s"
| "state_of (Threw s) = s"

text \<open>\<open>andThen r f\<close>: the statements \<open>f\<close> after \<open>r\<close>, skipped when \<open>r\<close> threw.\<close>

fun andThen :: "'a outcome \<Rightarrow> ('a \<Rightarrow> 'a outcome) \<Rightarrow> 'a outcome" where
  "andThen (Returned s) f = f s"
| "andThen (Threw s) f = Threw s"

text \<open>\<open>tryCatch r h\<close>: \<^verbatim>\<open>try { r } catch { h }\<close>.\<close>

fun tryCatch :: "'a outcome \<Rightarrow> ('a \<Rightarrow> 'a outcome) \<Rightarrow> 'a outcome" where
  "tryCatch (Returned s) h = Returned s"
| "tryCatch (Threw s) h = h s"

definition taskEvents :: "host \<Rightarrow> host_call \<Rightarrow> session \<Rightarrow> session outcome" where
  "taskEvents host c s =
     (let s' = s\<lparr>effects := effects s @ [TaskEvent c]\<rparr>
      in if host c then Returned s' else Threw s')"

text \<open>
  \<^verbatim>\<open>JSON.stringify\<close> throws a TypeError on a BigInt and on a cyclic structure, at any
  depth; every other value is serialised or left out.
\<close>

fun stringifyThrows :: "jsval \<Rightarrow> bool" where
  "stringifyThrows (JBigInt n) = True"
| "stringifyThrows JCyclic = True"
| "stringifyThrows (JArr vs) = (\<exists>v \<in> set vs. stringifyThrows v)"
| "stringifyThrows (JObj kvs) = (\<exists>v \<in> set (map snd kvs). stringifyThrows v)"
| "stringifyThrows v = False"

definition notSerialisable :: "ActionFormData \<Rightarrow> bool" where
  "notSerialisable data = (\<exists>v \<in> ran data. stringifyThrows v)"

text \<open>
  \<^verbatim>\<open>alert(message)\<close>, where the message is a template literal that holds the outcome
  and \<^verbatim>\<open>JSON.stringify(formData, null, 2)\<close>. The message is built first, so when
  \<^verbatim>\<open>JSON.stringify\<close> throws there is no alert.
\<close>

definition alert :: "string \<Rightarrow> ActionFormData \<Rightarrow> session \<Rightarrow> session outcome" where
  "alert outcome data s =
     (if notSerialisable data then Threw s
      else Returned (s\<lparr>effects := effects s @ [Alert outcome data]\<rparr>))"

section \<open>The operations of the hook\<close>

text \<open>\<^verbatim>\<open>try { sdk.taskEvents.dataChanged(data) } catch { }\<close>\<close>

definition notifyDataChanged :: "host \<Rightarrow> ActionFormData \<Rightarrow> session \<Rightarrow> session outcome" where
  "notifyDataChanged host data s =
     tryCatch (taskEvents host (DataChanged data) s) (\<lambda>s'. Returned s')"

text \<open>
  \<^verbatim>\<open>setFormData((prev) => { const updated = { ...prev, [fieldName]: value };
  notifyDataChanged(updated); return updated; })\<close>
\<close>

definition updateField :: "host \<Rightarrow> string \<Rightarrow> jsval \<Rightarrow> session \<Rightarrow> session outcome" where
  "updateField host fieldName value s =
     (let updated = (formData s)(fieldName \<mapsto> value)
      in andThen (notifyDataChanged host updated s)
           (\<lambda>s'. Returned (s'\<lparr>formData := updated\<rparr>)))"

text \<open>\<^verbatim>\<open>const updated = { ...prev, ...data }\<close>\<close>

definition updateFormData :: "host \<Rightarrow> ActionFormData \<Rightarrow> session \<Rightarrow> session outcome" where
  "updateFormData host data s =
     (let updated = formData s ++ data
      in andThen (notifyDataChanged host updated s)
           (\<lambda>s'. Returned (s'\<lparr>formData := updated\<rparr>)))"

text \<open>
  \<^verbatim>\<open>try { sdk.taskEvents.completeTask(outcome, formData) } catch { alert(...) }\<close>,
  a callback with the dependency \<^verbatim>\<open>[formData]\<close>: its \<^verbatim>\<open>formData\<close> is that of the last
  render. The \<^verbatim>\<open>alert\<close> stands in the \<^verbatim>\<open>catch\<close> block, so what it throws reaches the
  caller.
\<close>

definition completeTask :: "host \<Rightarrow> string \<Rightarrow> session \<Rightarrow> session outcome" where
  "completeTask host outcome s =
     tryCatch (taskEvents host (CompleteTask outcome (renderedFormData s)) s)
       (\<lambda>s'. alert outcome (renderedFormData s) s')"

text \<open>
  \<^verbatim>\<open>setFormData(initialDataRef.current); notifyDataChanged(initialDataRef.current)\<close>
\<close>

definition resetForm :: "host \<Rightarrow> session \<Rightarrow> session outcome" where
  "resetForm host s =
     andThen (Returned (s\<lparr>formData := initialDataRef s\<rparr>))
       (\<lambda>s'. notifyDataChanged host (initialDataRef s') s')"

text \<open>
  The mount effect. The ref is set before the subscription is attempted, so a second
  run of the effect does nothing, also when the first one threw.
  \<^verbatim>\<open>if (isInitializedRef.current) return; isInitializedRef.current = true;
  try { sdk.taskEvents.getTaskDetailsFromActionCenter(callback);
        sdk.taskEvents.initializeInActionCenter(); } catch (err) { console.error(...) }\<close>
\<close>

definition mountEffect :: "host \<Rightarrow> session \<Rightarrow> session outcome" where
  "mountEffect host s =
     (if isInitializedRef s then Returned s
      else tryCatch
             (andThen (taskEvents host GetTaskDetailsFromActionCenter (s\<lparr>isInitializedRef := True\<rparr>))
                (\<lambda>s'. taskEvents host InitializeInActionCenter s'))
             (\<lambda>s'. Returned s'))"

section \<open>The SDK module's functions\<close>

definition initializeSdk :: "RuntimeConfig \<Rightarrow> session \<Rightarrow> session" where
  "initializeSdk config s =
     s\<lparr>sdk := \<lparr>baseUrl = cfg_baseUrl config,
                orgName = cfg_orgName config,
                tenantName = cfg_tenantName config,
                secret = cfg_token config\<rparr>,
       sdkInitialized := True\<rparr>"

text \<open>
  Modelled from the spec: \<^verbatim>\<open>sdk.updateToken\<close> is a method of the external package
  uipath-sdk; by the spec it is the lighter call "taking only a refreshed token", which
  updates the existing client's token and nothing else.
\<close>

definition updateToken :: "string \<Rightarrow> session \<Rightarrow> session" where
  "updateToken newToken s = s\<lparr>sdk := (sdk s)\<lparr>secret := newToken\<rparr>\<rparr>"

section \<open>The subscription callback\<close>

text \<open>
  A string-valued field in a condition: \<^verbatim>\<open>undefined\<close> and the empty string are falsy.
\<close>

definition truthy :: "string option \<Rightarrow> bool" where
  "truthy x = (case x of None \<Rightarrow> False | Some v \<Rightarrow> v \<noteq> [])"

text \<open>\<^verbatim>\<open>data.baseUrl && data.orgName && data.tenantName && data.token\<close>\<close>

definition hasCredentials :: "ActionCenterData \<Rightarrow> bool" where
  "hasCredentials d =
     (truthy (ac_baseUrl d) \<and> truthy (ac_orgName d) \<and> truthy (ac_tenantName d) \<and> truthy (ac_token d))"

definition credentials :: "ActionCenterData \<Rightarrow> RuntimeConfig" where
  "credentials d =
     \<lparr>cfg_baseUrl = the (ac_baseUrl d),
      cfg_orgName = the (ac_orgName d),
      cfg_tenantName = the (ac_tenantName d),
      cfg_token = the (ac_token d)\<rparr>"

text \<open>
  The statements of the callback, one state change each, in the order of the source.
  \<open>credentials\<close> is only evaluated under \<open>hasCredentials\<close>, where all four are \<open>Some\<close>.
\<close>

definition setTaskData :: "ActionCenterData \<Rightarrow> session \<Rightarrow> session" where
  "setTaskData d s = s\<lparr>taskData := Some d\<rparr>"

definition credentialStep :: "ActionCenterData \<Rightarrow> session \<Rightarrow> session" where
  "credentialStep d s = (if hasCredentials d then initializeSdk (credentials d) s else s)"

definition tokenStep :: "ActionCenterData \<Rightarrow> session \<Rightarrow> session" where
  "tokenStep d s = (if truthy (ac_newToken d) then updateToken (the (ac_newToken d)) s else s)"

text \<open>\<^verbatim>\<open>setTheme((data.newTheme ?? data.theme) as Theme)\<close>\<close>

definition setTheme :: "ActionCenterData \<Rightarrow> session \<Rightarrow> session" where
  "setTheme d s =
     s\<lparr>theme := (case ac_newTheme d of Some t \<Rightarrow> Some t | None \<Rightarrow> ac_theme d)\<rparr>"

text \<open>\<^verbatim>\<open>setLanguage(data.newLanguage ?? data.language ?? 'en')\<close>\<close>

definition setLanguage :: "ActionCenterData \<Rightarrow> session \<Rightarrow> session" where
  "setLanguage d s =
     s\<lparr>language :=
         (case ac_newLanguage d of
            Some l \<Rightarrow> l
          | None \<Rightarrow> (case ac_language d of Some l \<Rightarrow> l | None \<Rightarrow> ''en''))\<rparr>"

text \<open>
  \<^verbatim>\<open>if (data.data) { setFormData(data.data); initialDataRef.current = data.data; }\<close>
\<close>

definition setFormDataStep :: "ActionCenterData \<Rightarrow> session \<Rightarrow> session" where
  "setFormDataStep d s =
     (case ac_data d of None \<Rightarrow> s | Some fd \<Rightarrow> s\<lparr>formData := fd\<rparr>)"

definition setInitialDataRefStep :: "ActionCenterData \<Rightarrow> session \<Rightarrow> session" where
  "setInitialDataRefStep d s =
     (case ac_data d of None \<Rightarrow> s | Some fd \<Rightarrow> s\<lparr>initialDataRef := fd\<rparr>)"

definition setHasActionCenterData :: "bool \<Rightarrow> session \<Rightarrow> session" where
  "setHasActionCenterData b s = s\<lparr>hasActionCenterData := b\<rparr>"

definition callbackSteps :: "ActionCenterData \<Rightarrow> (session \<Rightarrow> session) list" where
  "callbackSteps d =
     [setTaskData d, credentialStep d, tokenStep d, setTheme d, setLanguage d,
      setFormDataStep d, setInitialDataRefStep d, setHasActionCenterData True]"

text \<open>The states an observer can meet while the callback runs: one after each statement.\<close>

fun statesAfter :: "(session \<Rightarrow> session) list \<Rightarrow> session \<Rightarrow> session list" where
  "statesAfter [] s = []"
| "statesAfter (f # fs) s = f s # statesAfter fs (f s)"

text \<open>The callback as a whole.\<close>

definition onActionCenterData :: "ActionCenterData \<Rightarrow> session \<Rightarrow> session" where
  "onActionCenterData d s =
     setHasActionCenterData True
       (setInitialDataRefStep d
         (setFormDataStep d
           (setLanguage d
             (setTheme d
               (tokenStep d
                 (credentialStep d
                   (setTaskData d s)))))))"

section \<open>A session as a sequence of events\<close>

datatype action =
    Mount
  | Receive ActionCenterData
  | UpdateField string jsval
  | UpdateFormData ActionFormData
  | Complete string
  | Reset

text \<open>
  An event of its own: the handler runs, then React renders again, so that the
  callbacks of the next event close over the state this one left. An exception that
  leaves an event handler is reported by the browser and the session goes on.
\<close>

definition render :: "session \<Rightarrow> session" where
  "render s = s\<lparr>renderedFormData := formData s\<rparr>"

definition dispatch :: "session outcome \<Rightarrow> session outcome" where
  "dispatch r = Returned (render (state_of r))"

fun step :: "host \<Rightarrow> action \<Rightarrow> session \<Rightarrow> session outcome" where
  "step host Mount s = dispatch (mountEffect host s)"
| "step host (Receive d) s = dispatch (Returned (onActionCenterData d s))"
| "step host (UpdateField k v) s = dispatch (updateField host k v s)"
| "step host (UpdateFormData d) s = dispatch (updateFormData host d s)"
| "step host (Complete outcome) s = dispatch (completeTask host outcome s)"
| "step host Reset s = dispatch (resetForm host s)"

fun run :: "host \<Rightarrow> action list \<Rightarrow> session \<Rightarrow> session outcome" where
  "run host [] s = Returned s"
| "run host (a # as) s = andThen (step host a s) (run host as)"

text \<open>A sequence of \<^verbatim>\<open>updateField(name, value)\<close> calls.\<close>

definition setFieldCalls :: "(string \<times> jsval) list \<Rightarrow> action list" where
  "setFieldCalls ws = map (\<lambda>(k, v). UpdateField k v) ws"

section \<open>The numeric control (ActionFormField)\<close>

subsection \<open>The Number nearest to a fraction\<close>

text \<open>
  \<open>numberValue neg a b\<close> is the double nearest to the fraction \<open>a / b\<close> of two
  positive integers, with the sign \<open>neg\<close>: round to nearest, ties to even, with gradual
  underflow to the subnormal numbers and to zero, and overflow to an infinity.
\<close>

function bitLength :: "int \<Rightarrow> nat" where
  "bitLength n = (if n \<le> 0 then 0 else Suc (bitLength (n div 2)))"
  by pat_completeness auto
termination
  by (relation "measure nat") auto

declare bitLength.simps [simp del]

definition pow2 :: "int \<Rightarrow> rat" where
  "pow2 e = (if 0 \<le> e then 2 ^ nat e else 1 / 2 ^ nat (- e))"

text \<open>The exponent \<open>e\<close> with \<open>2 ^ e \<le> a / b < 2 ^ (e + 1)\<close>.\<close>

definition floorLog2 :: "int \<Rightarrow> int \<Rightarrow> int" where
  "floorLog2 a b =
     (let k = int (bitLength a) - int (bitLength b)
      in if pow2 k * of_int b \<le> of_int a then k else k - 1)"

definition roundHalfEven :: "rat \<Rightarrow> int" where
  "roundHalfEven q =
     (let f = \<lfloor>q\<rfloor>; r = q - of_int f
      in if r < 1 / 2 then f else if 1 / 2 < r then f + 1 else if even f then f else f + 1)"

definition numberValue :: "bool \<Rightarrow> int \<Rightarrow> int \<Rightarrow> jsnum" where
  "numberValue neg a b =
     (if a = 0 then Finite 0
      else (let e = max (floorLog2 a b) (- 1022);
                ulp = pow2 (e - 52);
                v = of_int (roundHalfEven (of_int a / of_int b / ulp)) * ulp
            in if pow2 1024 \<le> v then Infinity neg
               else Finite (if neg then - v else v)))"

text \<open>The Number for the decimal \<open>n * 10 ^ k\<close>.\<close>

definition decimalValue :: "bool \<Rightarrow> int \<Rightarrow> int \<Rightarrow> jsnum" where
  "decimalValue neg n k =
     (if 0 \<le> k then numberValue neg (n * 10 ^ nat k) 1 else numberValue neg n (10 ^ nat (- k)))"

subsection \<open>The built-in parsers\<close>

text \<open>
  \<^verbatim>\<open>parseInt(val, 10)\<close> and \<^verbatim>\<open>parseFloat(val)\<close> as ECMAScript defines them: leading
  white space is skipped, then the longest prefix that is a number is read and rounded to
  a Number, and the result is \<^verbatim>\<open>NaN\<close> when there is none. A string of the model is a
  sequence of code units below 256, so the white space is the part of ECMAScript's
  below 256: tab, line feed, vertical tab, form feed, carriage return, space and
  no-break space. Every digit is read (an implementation may read the digits after the
  20th as zeros).
\<close>

definition isWhiteSpace :: "char \<Rightarrow> bool" where
  "isWhiteSpace c =
     (c \<in> {CHR '' '', CHR 0x09, CHR 0x0A, CHR 0x0B, CHR 0x0C, CHR 0x0D, CHR 0xA0})"

definition isDigit :: "char \<Rightarrow> bool" where
  "isDigit c = (c \<in> set ''0123456789'')"

definition digitValue :: "char \<Rightarrow> int" where
  "digitValue c = of_char c - 48"

definition digitsValue :: "string \<Rightarrow> int" where
  "digitsValue ds = foldl (\<lambda>n c. 10 * n + digitValue c) 0 ds"

definition splitSign :: "string \<Rightarrow> bool \<times> string" where
  "splitSign s =
     (case s of
        [] \<Rightarrow> (False, [])
      | c # r \<Rightarrow> if c = CHR ''-'' then (True, r) else if c = CHR ''+'' then (False, r) else (False, s))"

definition parseInt10 :: "string \<Rightarrow> jsnum" where
  "parseInt10 input =
     (case splitSign (dropWhile isWhiteSpace input) of
        (neg, u) \<Rightarrow>
          (let z = takeWhile isDigit u
           in if z = [] then NaN else numberValue neg (digitsValue z) 1))"

text \<open>The exponent after the mantissa: 0 unless \<open>e\<close>, an optional sign and digits follow.\<close>

definition exponentPart :: "string \<Rightarrow> int" where
  "exponentPart r =
     (case r of
        [] \<Rightarrow> 0
      | c # r1 \<Rightarrow>
          if c = CHR ''e'' \<or> c = CHR ''E''
          then (case splitSign r1 of
                  (neg, r2) \<Rightarrow>
                    (let ds = takeWhile isDigit r2
                     in if ds = [] then 0
                        else if neg then - digitsValue ds else digitsValue ds))
          else 0)"

definition parseFloat :: "string \<Rightarrow> jsnum" where
  "parseFloat input =
     (case splitSign (dropWhile isWhiteSpace input) of
        (neg, u) \<Rightarrow>
          if take 8 u = ''Infinity'' then Infinity neg
          else (let ip = takeWhile isDigit u;
                    r1 = dropWhile isDigit u;
                    hasDot = (case r1 of [] \<Rightarrow> False | c # _ \<Rightarrow> c = CHR ''.'');
                    fp = (if hasDot then takeWhile isDigit (tl r1) else []);
                    r2 = (if hasDot then dropWhile isDigit (tl r1) else r1)
                in if ip = [] \<and> fp = [] then NaN
                   else decimalValue neg (digitsValue (ip @ fp))
                          (exponentPart r2 - int (length fp))))"

subsection \<open>The value of a number input\<close>

text \<open>
  The control is an \<^verbatim>\<open><Input type="number">\<close>. By the HTML standard the value of such
  an input is the text in it when that is a valid floating-point number (an optional
  \<open>-\<close>, digits with an optional fraction or a fraction alone, an optional exponent),
  and the empty string otherwise.
\<close>

definition validExponent :: "string \<Rightarrow> bool" where
  "validExponent r =
     (case r of
        [] \<Rightarrow> True
      | c # r1 \<Rightarrow>
          (c = CHR ''e'' \<or> c = CHR ''E'')
          \<and> (let ds = (case r1 of
                          [] \<Rightarrow> []
                        | d # r2 \<Rightarrow> if d = CHR ''-'' \<or> d = CHR ''+'' then r2 else r1)
             in ds \<noteq> [] \<and> list_all isDigit ds))"

definition validFloatingPointNumber :: "string \<Rightarrow> bool" where
  "validFloatingPointNumber text =
     (let u = (case text of [] \<Rightarrow> [] | c # r \<Rightarrow> if c = CHR ''-'' then r else text);
          ip = takeWhile isDigit u
      in case dropWhile isDigit u of
           [] \<Rightarrow> ip \<noteq> []
         | c # r \<Rightarrow>
             if c = CHR ''.''
             then takeWhile isDigit r \<noteq> [] \<and> validExponent (dropWhile isDigit r)
             else ip \<noteq> [] \<and> validExponent (c # r))"

definition numberInputValue :: "string \<Rightarrow> string" where
  "numberInputValue text = (if validFloatingPointNumber text then text else [])"

subsection \<open>The change handler\<close>

text \<open>
  The control held the value \<open>before\<close> and the user leaves \<open>text\<close> in it. React calls
  the handler when the value of the input has changed; the handler gets that value as
  \<^verbatim>\<open>e.target.value\<close>. The result is the arguments of the calls of \<^verbatim>\<open>onChange\<close> made,
  in order.
  \<^verbatim>\<open>if (val === '') onChange(undefined);
  else onChange(isInteger ? parseInt(val, 10) : parseFloat(val));\<close>
\<close>

definition NumberControl_onChange :: "bool \<Rightarrow> string \<Rightarrow> string \<Rightarrow> jsval list" where
  "NumberControl_onChange isInteger before text =
     (let val = numberInputValue text
      in if val = before then []
         else if val = [] then [JUndefined]
         else [JNum (if isInteger then parseInt10 val else parseFloat val)])"

text \<open>A number with no fractional part (\<^verbatim>\<open>Number.isInteger\<close>).\<close>

fun isWhole :: "jsnum \<Rightarrow> bool" where
  "isWhole (Finite q) = (q = of_int \<lfloor>q\<rfloor>)"
| "isWhole _ = False"

section \<open>What the specification says, in its own words\<close>

text \<open>
  The baseline of \<open>reset()\<close>: "the snapshot most recently established by initialize or
  applyHostSnapshot", that is the data of the last envelope that carried data, and the
  caller's default when there was none.
\<close>

fun hostSnapshot :: "action \<Rightarrow> ActionFormData option" where
  "hostSnapshot (Receive d) = ac_data d"
| "hostSnapshot _ = None"

definition lastBaseline :: "ActionFormData \<Rightarrow> action list \<Rightarrow> ActionFormData" where
  "lastBaseline d0 as = last (d0 # List.map_filter hostSnapshot as)"

text \<open>
  The read-only flag of "the most recently received host envelope", false when none was
  received or when that envelope carries no flag.
\<close>

fun received :: "action \<Rightarrow> ActionCenterData option" where
  "received (Receive d) = Some d"
| "received _ = None"

definition lastEnvelopeReadOnly :: "action list \<Rightarrow> bool" where
  "lastEnvelopeReadOnly as =
     (case rev (List.map_filter received as) of
        [] \<Rightarrow> False
      | d # _ \<Rightarrow> (case ac_isReadOnly d of None \<Rightarrow> False | Some b \<Rightarrow> b))"

text \<open>The local actions: every event but an envelope from the host.\<close>

fun isLocal :: "action \<Rightarrow> bool" where
  "isLocal (Receive d) = False"
| "isLocal _ = True"

section \<open>Concrete sessions\<close>

text \<open>The default client of lib/uipath.ts with no environment variable set.\<close>

definition envClient :: UiPath where
  "envClient = \<lparr>baseUrl = ''https://cloud.uipath.com'', orgName = [], tenantName = [], secret = []\<rparr>"

text \<open>\<^verbatim>\<open>INITIAL_DATA\<close> of ActionPage.\<close>

definition INITIAL_DATA :: ActionFormData where
  "INITIAL_DATA =
     [''patientName'' \<mapsto> JStr ''Sarah Johnson'',
      ''faxNumber'' \<mapsto> JStr ''(555) 123-4567'',
      ''emailAddress'' \<mapsto> JStr ''sarah.johnson@email.com'']"

definition previewSession :: session where
  "previewSession = useActionContext envClient (Some INITIAL_DATA)"

definition hostPresent :: host where
  "hostPresent c = True"

definition hostAbsent :: host where
  "hostAbsent c = False"

definition emptyEnvelope :: ActionCenterData where
  "emptyEnvelope =
     \<lparr>ac_data = None, ac_baseUrl = None, ac_orgName = None, ac_tenantName = None,
      ac_token = None, ac_newToken = None, ac_theme = None, ac_newTheme = None,
      ac_language = None, ac_newLanguage = None, ac_isReadOnly = None\<rparr>"

text \<open>Scenario C of the specification: \<^verbatim>\<open>{isReadOnly: true}\<close> with no data.\<close>

definition readOnlyEnvelope :: ActionCenterData where
  "readOnlyEnvelope = emptyEnvelope\<lparr>ac_isReadOnly := Some True\<rparr>"

text \<open>The preview session after Scenario C's envelope: read-only, with the default values.\<close>

definition readOnlySession :: session where
  "readOnlySession = onActionCenterData readOnlyEnvelope previewSession"

text \<open>
  The preview session after \<^verbatim>\<open>updateField('reviewerComments', 'x')\<close>, before the next
  render: what a handler sees that goes on after that call.
\<close>

definition editedSession :: session where
  "editedSession = state_of (updateField hostPresent ''reviewerComments'' (JStr ''x'') previewSession)"

text \<open>A preview session whose default data hold a BigInt.\<close>

definition bigIntSession :: session where
  "bigIntSession = useActionContext envClient (Some [''amount'' \<mapsto> JBigInt 1])"

text \<open>Scenario B: \<^verbatim>\<open>{data: {patientName: "Alice", reviewerComments: ""}, isReadOnly: false}\<close>.\<close>

definition aliceData :: ActionFormData where
  "aliceData = [''patientName'' \<mapsto> JStr ''Alice'', ''reviewerComments'' \<mapsto> JStr []]"

definition aliceEnvelope :: ActionCenterData where
  "aliceEnvelope = emptyEnvelope\<lparr>ac_data := Some aliceData, ac_isReadOnly := Some False\<rparr>"

text \<open>An envelope with the four credentials, and one with a refreshed token only.\<close>

definition credentialEnvelope :: ActionCenterData where
  "credentialEnvelope =
     emptyEnvelope\<lparr>ac_baseUrl := Some ''https://host'', ac_orgName := Some ''org'',
                   ac_tenantName := Some ''tenant'', ac_token := Some ''t0''\<rparr>"

definition tokenEnvelope :: ActionCenterData where
  "tokenEnvelope = emptyEnvelope\<lparr>ac_newToken := Some ''t1''\<rparr>"

text \<open>An envelope with two of the four credentials.\<close>

definition partialEnvelope :: ActionCenterData where
  "partialEnvelope = emptyEnvelope\<lparr>ac_baseUrl := Some ''https://host'', ac_token := Some ''t0''\<rparr>"

section \<open>What each operation does\<close>

text \<open>
  Every call on the host is wrapped in \<^verbatim>\<open>try\<close>/\<^verbatim>\<open>catch\<close>. The equations below give
  the state each operation leaves; all but \<open>completeTask\<close> always return.
\<close>

lemma notifyDataChanged_eq:
  "notifyDataChanged host data s =
     Returned (s\<lparr>effects := effects s @ [TaskEvent (DataChanged data)]\<rparr>)"
  by (simp add: notifyDataChanged_def taskEvents_def Let_def)

lemma updateField_eq:
  "updateField host k v s =
     Returned (s\<lparr>formData := (formData s)(k \<mapsto> v),
                 effects := effects s @ [TaskEvent (DataChanged ((formData s)(k \<mapsto> v)))]\<rparr>)"
  by (simp add: updateField_def notifyDataChanged_eq Let_def)

lemma updateFormData_eq:
  "updateFormData host d s =
     Returned (s\<lparr>formData := formData s ++ d,
                 effects := effects s @ [TaskEvent (DataChanged (formData s ++ d))]\<rparr>)"
  by (simp add: updateFormData_def notifyDataChanged_eq Let_def)

lemma resetForm_eq:
  "resetForm host s =
     Returned (s\<lparr>formData := initialDataRef s,
                 effects := effects s @ [TaskEvent (DataChanged (initialDataRef s))]\<rparr>)"
  by (simp add: resetForm_def notifyDataChanged_eq)

lemma completeTask_eq:
  "completeTask host outcome s =
     (if host (CompleteTask outcome (renderedFormData s))
      then Returned (s\<lparr>effects := effects s
                        @ [TaskEvent (CompleteTask outcome (renderedFormData s))]\<rparr>)
      else if notSerialisable (renderedFormData s)
      then Threw (s\<lparr>effects := effects s
                      @ [TaskEvent (CompleteTask outcome (renderedFormData s))]\<rparr>)
      else Returned (s\<lparr>effects := effects s
                         @ [TaskEvent (CompleteTask outcome (renderedFormData s)),
                            Alert outcome (renderedFormData s)]\<rparr>))"
  by (simp add: completeTask_def taskEvents_def alert_def Let_def)

lemma completeTask_state:
  "state_of (completeTask host outcome s) =
     s\<lparr>effects := effects s @ TaskEvent (CompleteTask outcome (renderedFormData s))
           # (if host (CompleteTask outcome (renderedFormData s))
                 \<or> notSerialisable (renderedFormData s)
              then [] else [Alert outcome (renderedFormData s)])\<rparr>"
  by (simp add: completeTask_eq)

lemma mountEffect_eq:
  "mountEffect host s =
     Returned (if isInitializedRef s then s
               else s\<lparr>isInitializedRef := True,
                      effects := effects s @ TaskEvent GetTaskDetailsFromActionCenter
                        # (if host GetTaskDetailsFromActionCenter
                           then [TaskEvent InitializeInActionCenter] else [])\<rparr>)"
  by (simp add: mountEffect_def taskEvents_def Let_def)

lemmas operation_eqs =
  updateField_eq updateFormData_eq resetForm_eq completeTask_state mountEffect_eq
  dispatch_def render_def

lemma formData_step_UpdateField:
  "formData (state_of (step host (UpdateField k v) s)) = (formData s)(k \<mapsto> v)"
  by (simp add: operation_eqs)

lemma rendered_step:
  "renderedFormData (state_of (step host a s)) = formData (state_of (step host a s))"
  by (cases a) (simp_all add: dispatch_def render_def)

lemma step_Returned: "\<exists>s'. step host a s = Returned s'"
  by (cases a) (simp_all add: dispatch_def)

lemma run_Returned: "\<exists>s'. run host as s = Returned s'"
proof (induction as arbitrary: s)
  case Nil
  show ?case by simp
next
  case (Cons a as)
  obtain s1 where "step host a s = Returned s1"
    using step_Returned by blast
  then show ?case
    using Cons.IH [of s1] by simp
qed

lemma run_Cons_state:
  "state_of (run host (a # as) s) = state_of (run host as (state_of (step host a s)))"
proof -
  obtain s1 where "step host a s = Returned s1"
    using step_Returned by blast
  then show ?thesis by simp
qed

subsection \<open>The callback, field by field\<close>

lemmas callback_defs =
  onActionCenterData_def setTaskData_def credentialStep_def tokenStep_def setTheme_def
  setLanguage_def setFormDataStep_def setInitialDataRefStep_def setHasActionCenterData_def
  initializeSdk_def updateToken_def

lemma taskData_onActionCenterData [simp]: "taskData (onActionCenterData d s) = Some d"
  by (simp add: callback_defs split: option.splits)

lemma formData_onActionCenterData:
  "formData (onActionCenterData d s) = (case ac_data d of None \<Rightarrow> formData s | Some fd \<Rightarrow> fd)"
  by (simp add: callback_defs split: option.splits)

lemma initialDataRef_onActionCenterData:
  "initialDataRef (onActionCenterData d s) =
     (case ac_data d of None \<Rightarrow> initialDataRef s | Some fd \<Rightarrow> fd)"
  by (simp add: callback_defs split: option.splits)

lemma hasActionCenterData_onActionCenterData [simp]:
  "hasActionCenterData (onActionCenterData d s)"
  by (simp add: callback_defs split: option.splits)

lemma effects_onActionCenterData [simp]: "effects (onActionCenterData d s) = effects s"
  by (simp add: callback_defs split: option.splits)

lemma isInitializedRef_onActionCenterData [simp]:
  "isInitializedRef (onActionCenterData d s) = isInitializedRef s"
  by (simp add: callback_defs split: option.splits)

subsection \<open>The envelope a session holds\<close>

lemma taskData_step:
  "taskData (state_of (step host a s)) =
     (case received a of None \<Rightarrow> taskData s | Some d \<Rightarrow> Some d)"
  by (cases a) (simp_all add: operation_eqs)

lemma taskData_run:
  "taskData (state_of (run host as s)) =
     (case rev (List.map_filter received as) of [] \<Rightarrow> taskData s | d # _ \<Rightarrow> Some d)"
proof (induction as arbitrary: s)
  case Nil
  show ?case by simp
next
  case (Cons a as)
  have "taskData (state_of (run host (a # as) s))
          = taskData (state_of (run host as (state_of (step host a s))))"
    by (simp only: run_Cons_state)
  also have "\<dots> = (case rev (List.map_filter received as) of
                       [] \<Rightarrow> taskData (state_of (step host a s)) | d # _ \<Rightarrow> Some d)"
    by (rule Cons.IH)
  also have "\<dots> = (case rev (List.map_filter received (a # as)) of
                       [] \<Rightarrow> taskData s | d # _ \<Rightarrow> Some d)"
    by (cases "rev (List.map_filter received as)")
       (auto simp: taskData_step split: option.splits list.splits)
  finally show ?case .
qed

section \<open>The flag of host data and the values it announces\<close>

text \<open>
  Claim C1, as the code has it. While the callback of the subscription runs, the write
  of \<open>hasActionCenterData\<close> is its last state change: in every state before the last
  the flag is what it was. In every state an observer can meet in which the flag has
  turned true, \<open>formData\<close> is already the envelope's data when the envelope carries
  data, and is the snapshot of before when it carries none.
\<close>

theorem hasActionCenterData_written_last:
  "(\<forall>s' \<in> set (butlast (statesAfter (callbackSteps d) s)).
       hasActionCenterData s' = hasActionCenterData s)
   \<and> last (statesAfter (callbackSteps d) s) = onActionCenterData d s
   \<and> hasActionCenterData (onActionCenterData d s)
   \<and> (\<forall>s' \<in> set (statesAfter (callbackSteps d) s).
         hasActionCenterData s' \<and> \<not> hasActionCenterData s \<longrightarrow>
           formData s' = (case ac_data d of Some fd \<Rightarrow> fd | None \<Rightarrow> formData s))"
  by (simp add: callbackSteps_def callback_defs split: option.splits)

theorem hasActionCenterData_written_last_witness:
  "\<not> hasActionCenterData previewSession
   \<and> hasActionCenterData (onActionCenterData aliceEnvelope previewSession)
   \<and> formData (onActionCenterData aliceEnvelope previewSession) = aliceData
   \<and> list_all (\<lambda>s'. \<not> hasActionCenterData s')
         (butlast (statesAfter (callbackSteps aliceEnvelope) previewSession))"
proof -
  have a: "\<not> hasActionCenterData previewSession"
    by (simp add: previewSession_def useActionContext_def)
  have b: "ac_data aliceEnvelope = Some aliceData"
    by (simp add: aliceEnvelope_def emptyEnvelope_def)
  have "statesAfter (callbackSteps aliceEnvelope) previewSession \<noteq> []"
    by (simp add: callbackSteps_def)
  then have c: "last (statesAfter (callbackSteps aliceEnvelope) previewSession)
                  \<in> set (statesAfter (callbackSteps aliceEnvelope) previewSession)"
    by (rule last_in_set)
  from hasActionCenterData_written_last [of aliceEnvelope previewSession] a b c
  show ?thesis
    by (auto simp: list_all_iff)
qed

text \<open>
  The claim as written fails for an envelope without data (Scenario C's
  \<^verbatim>\<open>{isReadOnly: true}\<close>) that arrives first: the flag is true and the values are
  still the caller's defaults.
\<close>

theorem hasActionCenterData_with_default_values:
  "\<not> hasActionCenterData previewSession
   \<and> ac_data readOnlyEnvelope = None
   \<and> hasActionCenterData (onActionCenterData readOnlyEnvelope previewSession)
   \<and> formData (onActionCenterData readOnlyEnvelope previewSession) = INITIAL_DATA"
  by (simp add: formData_onActionCenterData readOnlyEnvelope_def emptyEnvelope_def
        previewSession_def useActionContext_def initialData_def)

section \<open>Sequences of field updates\<close>

lemma run_updates_formData:
  "formData (state_of (run host (setFieldCalls ws) s)) = formData s ++ map_of (rev ws)"
proof (induction ws arbitrary: s)
  case Nil
  show ?case by (simp add: setFieldCalls_def)
next
  case (Cons w ws)
  obtain k v where w: "w = (k, v)" by (cases w)
  have "formData (state_of (run host (setFieldCalls (w # ws)) s))
        = formData (state_of (run host (setFieldCalls ws) (state_of (step host (UpdateField k v) s))))"
    using w by (simp add: setFieldCalls_def run_Cons_state del: run.simps step.simps)
  also have "\<dots> = formData (state_of (step host (UpdateField k v) s)) ++ map_of (rev ws)"
    by (rule Cons.IH)
  also have "\<dots> = (formData s)(k \<mapsto> v) ++ map_of (rev ws)"
    by (simp only: formData_step_UpdateField)
  also have "\<dots> = formData s ++ map_of (rev (w # ws))"
    using w by (simp add: map_add_def fun_eq_iff split: option.splits)
  finally show ?case .
qed

lemma received_setFieldCalls: "List.map_filter received (setFieldCalls ws) = []"
  by (induction ws) (auto simp: setFieldCalls_def)

text \<open>
  Claim C3. Any finite sequence of \<open>updateField\<close> calls made while the form is not
  read-only returns, and leaves the snapshot it started from overlaid with the writes in
  order: for each key the last write wins, and a key never written keeps its value. The
  form is still not read-only afterwards.
\<close>

theorem updateField_sequence_overlay:
  assumes "\<not> isReadOnly s"
  shows "\<exists>s'. run host (setFieldCalls ws) s = Returned s'
           \<and> formData s' = formData s ++ map_of (rev ws)
           \<and> (\<forall>k. formData s' k =
                  (case map_of (rev ws) k of Some v \<Rightarrow> Some v | None \<Rightarrow> formData s k))
           \<and> \<not> isReadOnly s'"
proof -
  obtain s' where r: "run host (setFieldCalls ws) s = Returned s'"
    using run_Returned by blast
  have f: "formData s' = formData s ++ map_of (rev ws)"
    using run_updates_formData [of host ws s] r by simp
  have "taskData s' = taskData s"
    using taskData_run [of host "setFieldCalls ws" s] r
    by (simp add: received_setFieldCalls)
  then have "\<not> isReadOnly s'"
    using assms by (simp add: isReadOnly_def)
  with r f show ?thesis
    by (auto simp: map_add_def split: option.splits)
qed

theorem updateField_sequence_overlay_witness:
  "\<not> isReadOnly previewSession
   \<and> (\<exists>s'. run hostAbsent
              [UpdateField ''comments'' (JStr ''a''), UpdateField ''comments'' (JStr ''b'')]
              previewSession = Returned s'
         \<and> formData s' ''comments'' = Some (JStr ''b'')
         \<and> formData s' ''patientName'' = Some (JStr ''Sarah Johnson''))"
proof -
  have h: "\<not> isReadOnly previewSession"
    by (simp add: isReadOnly_def previewSession_def useActionContext_def)
  have i: "formData previewSession ''patientName'' = Some (JStr ''Sarah Johnson'')"
    by (simp add: previewSession_def useActionContext_def initialData_def INITIAL_DATA_def)
  from updateField_sequence_overlay
         [OF h, of hostAbsent "[(''comments'', JStr ''a''), (''comments'', JStr ''b'')]"] h i
  show ?thesis
    by (auto simp: setFieldCalls_def)
qed

section \<open>Updates of a read-only form\<close>

lemma isReadOnly_readOnlySession: "isReadOnly readOnlySession"
  by (simp add: readOnlySession_def isReadOnly_def readOnlyEnvelope_def emptyEnvelope_def)

lemma formData_readOnlySession: "formData readOnlySession = INITIAL_DATA"
  by (simp add: readOnlySession_def formData_onActionCenterData readOnlyEnvelope_def
        emptyEnvelope_def previewSession_def useActionContext_def initialData_def)

lemma effects_readOnlySession: "effects readOnlySession = []"
  by (simp add: readOnlySession_def previewSession_def useActionContext_def)

text \<open>
  Claim C2, as the code has it. \<open>updateField\<close> and \<open>updateFormData\<close> do not read
  \<open>isReadOnly\<close>: also when it is true they merge the write into the snapshot and send
  one data-changed notification with the full updated snapshot, and the form stays
  read-only. (The page keeps a read-only form from being edited by disabling its
  controls.)
\<close>

theorem updateField_ignores_isReadOnly:
  assumes "isReadOnly s"
  shows "updateField host k v s =
           Returned (s\<lparr>formData := (formData s)(k \<mapsto> v),
                       effects := effects s @ [TaskEvent (DataChanged ((formData s)(k \<mapsto> v)))]\<rparr>)
         \<and> updateFormData host d s =
           Returned (s\<lparr>formData := formData s ++ d,
                       effects := effects s @ [TaskEvent (DataChanged (formData s ++ d))]\<rparr>)
         \<and> isReadOnly (state_of (updateField host k v s))
         \<and> isReadOnly (state_of (updateFormData host d s))"
  using assms by (simp add: updateField_eq updateFormData_eq isReadOnly_def)

theorem updateField_ignores_isReadOnly_witness:
  "isReadOnly readOnlySession
   \<and> formData (state_of (updateField hostAbsent ''comments'' (JStr ''x'') readOnlySession))
       = INITIAL_DATA(''comments'' \<mapsto> JStr ''x'')
   \<and> effects (state_of (updateField hostAbsent ''comments'' (JStr ''x'') readOnlySession))
       = [TaskEvent (DataChanged (INITIAL_DATA(''comments'' \<mapsto> JStr ''x'')))]"
  using updateField_ignores_isReadOnly [OF isReadOnly_readOnlySession, of hostAbsent "''comments''" "JStr ''x''" Map.empty]
  by (simp add: formData_readOnlySession effects_readOnlySession isReadOnly_readOnlySession)

text \<open>
  The claim as written fails: on the read-only session of Scenario C, a call of
  \<open>updateField\<close> (or \<open>updateFormData\<close>) changes the snapshot and sends a notification.
\<close>

theorem updateField_changes_read_only_form:
  "isReadOnly readOnlySession
   \<and> formData readOnlySession ''comments'' = None
   \<and> formData (state_of (updateField hostPresent ''comments'' (JStr ''x'') readOnlySession)) ''comments''
       = Some (JStr ''x'')
   \<and> effects readOnlySession = []
   \<and> effects (state_of (updateField hostPresent ''comments'' (JStr ''x'') readOnlySession))
       = [TaskEvent (DataChanged (INITIAL_DATA(''comments'' \<mapsto> JStr ''x'')))]
   \<and> formData (state_of (updateFormData hostPresent [''comments'' \<mapsto> JStr ''x''] readOnlySession)) ''comments''
       = Some (JStr ''x'')"
  by (simp add: isReadOnly_readOnlySession updateField_eq updateFormData_eq
        formData_readOnlySession effects_readOnlySession INITIAL_DATA_def)

section \<open>Completing the task\<close>

lemma serialisable_INITIAL_DATA: "\<not> notSerialisable INITIAL_DATA"
  by (auto simp: notSerialisable_def INITIAL_DATA_def ran_def split: if_splits)

lemma notSerialisable_bigInt: "notSerialisable [''amount'' \<mapsto> JBigInt 1]"
  by (auto simp: notSerialisable_def ran_def)

lemma rendered_previewSession: "renderedFormData previewSession = INITIAL_DATA"
  by (simp add: previewSession_def useActionContext_def initialData_def)

lemma rendered_editedSession: "renderedFormData editedSession = INITIAL_DATA"
  by (simp add: editedSession_def updateField_eq rendered_previewSession)

text \<open>
  Claim C5, as the code has it. \<open>completeTask outcome\<close> calls the host with the outcome
  and the \<open>formData\<close> of the last render. When the host call returns, there is no alert
  and the call returns. When the host call throws and that snapshot can be serialised,
  the fallback \<open>alert\<close> runs, once, with the same outcome and snapshot, and the call
  returns. Nothing else of the session changes. After every event the \<open>formData\<close> of
  the last render is the current one, so a completion that is an event of its own sends
  the current snapshot; \<open>updateField\<close> leaves the \<open>formData\<close> of the last render as it
  is, so a completion in the same handler sends the snapshot from before the update.
\<close>

theorem completeTask_fallback:
  "(host (CompleteTask outcome (renderedFormData s)) \<or> \<not> notSerialisable (renderedFormData s) \<longrightarrow>
      completeTask host outcome s =
        Returned (s\<lparr>effects := effects s @
                      (if host (CompleteTask outcome (renderedFormData s))
                       then [TaskEvent (CompleteTask outcome (renderedFormData s))]
                       else [TaskEvent (CompleteTask outcome (renderedFormData s)),
                             Alert outcome (renderedFormData s)])\<rparr>))
   \<and> renderedFormData (state_of (step host a s)) = formData (state_of (step host a s))
   \<and> (\<exists>rest. effects (state_of (step host (Complete outcome) (state_of (step host a s))))
               = effects (state_of (step host a s))
                   @ TaskEvent (CompleteTask outcome (formData (state_of (step host a s)))) # rest)
   \<and> renderedFormData (state_of (updateField host k v s)) = renderedFormData s"
  by (simp add: completeTask_eq rendered_step completeTask_state dispatch_def render_def
        updateField_eq)

theorem completeTask_fallback_witness:
  "\<not> notSerialisable (renderedFormData previewSession)
   \<and> completeTask hostAbsent ''Approve'' previewSession =
       Returned (previewSession\<lparr>effects :=
          [TaskEvent (CompleteTask ''Approve'' INITIAL_DATA), Alert ''Approve'' INITIAL_DATA]\<rparr>)"
proof -
  have s: "\<not> notSerialisable (renderedFormData previewSession)"
    by (simp add: rendered_previewSession serialisable_INITIAL_DATA)
  have e: "effects previewSession = []"
    by (simp add: previewSession_def useActionContext_def)
  from completeTask_fallback [of hostAbsent "''Approve''" previewSession Mount] s
  have "completeTask hostAbsent ''Approve'' previewSession =
          Returned (previewSession\<lparr>effects := effects previewSession @
             (if hostAbsent (CompleteTask ''Approve'' (renderedFormData previewSession))
              then [TaskEvent (CompleteTask ''Approve'' (renderedFormData previewSession))]
              else [TaskEvent (CompleteTask ''Approve'' (renderedFormData previewSession)),
                    Alert ''Approve'' (renderedFormData previewSession)])\<rparr>)"
    by blast
  then show ?thesis
    using s by (simp add: e rendered_previewSession hostAbsent_def)
qed

text \<open>
  The claim as written fails twice. Called in the handler that has just called
  \<open>updateField\<close>, \<open>completeTask\<close> sends the snapshot of the last render, without the
  update. And when the host call throws and the snapshot holds a BigInt, the fallback
  throws in its turn, to the caller, and shows nothing.
\<close>

theorem completeTask_sends_rendered_snapshot:
  "formData editedSession ''reviewerComments'' = Some (JStr ''x'')
   \<and> INITIAL_DATA ''reviewerComments'' = None
   \<and> completeTask hostPresent ''Approve'' editedSession =
       Returned (editedSession\<lparr>effects := effects editedSession
                   @ [TaskEvent (CompleteTask ''Approve'' INITIAL_DATA)]\<rparr>)
   \<and> completeTask hostAbsent ''Approve'' bigIntSession =
       Threw (bigIntSession\<lparr>effects :=
                [TaskEvent (CompleteTask ''Approve'' [''amount'' \<mapsto> JBigInt 1])]\<rparr>)"
proof -
  have a: "formData editedSession ''reviewerComments'' = Some (JStr ''x'')"
    by (simp add: editedSession_def updateField_eq)
  have b: "INITIAL_DATA ''reviewerComments'' = None"
    by (simp add: INITIAL_DATA_def)
  have c: "completeTask hostPresent ''Approve'' editedSession =
       Returned (editedSession\<lparr>effects := effects editedSession
                   @ [TaskEvent (CompleteTask ''Approve'' INITIAL_DATA)]\<rparr>)"
    by (simp add: completeTask_eq rendered_editedSession hostPresent_def)
  have "renderedFormData bigIntSession = [''amount'' \<mapsto> JBigInt 1]"
       "effects bigIntSession = []"
    by (simp_all add: bigIntSession_def useActionContext_def initialData_def)
  then have d: "completeTask hostAbsent ''Approve'' bigIntSession =
       Threw (bigIntSession\<lparr>effects :=
                [TaskEvent (CompleteTask ''Approve'' [''amount'' \<mapsto> JBigInt 1])]\<rparr>)"
    by (simp add: completeTask_eq hostAbsent_def notSerialisable_bigInt)
  from a b c d show ?thesis by simp
qed

text \<open>
  Claim C8, as the code has it. \<open>completeTask\<close> changes no state of the hook: the
  snapshot, the baseline and \<open>isReadOnly\<close> are what they were, whether the host call
  succeeded or not (and whether the call returned or threw). An \<open>updateField\<close> after
  it therefore still merges its write.
\<close>

theorem completeTask_leaves_form_editable:
  "(host (CompleteTask outcome (renderedFormData s)) \<or> \<not> notSerialisable (renderedFormData s) \<longrightarrow>
      (\<exists>s'. completeTask host outcome s = Returned s'
             \<and> s' = s\<lparr>effects := effects s'\<rparr>
             \<and> formData s' = formData s
             \<and> initialDataRef s' = initialDataRef s
             \<and> isReadOnly s' = isReadOnly s)
      \<and> formData (state_of (andThen (completeTask host outcome s) (updateField host k v)))
          = (formData s)(k \<mapsto> v))
   \<and> (\<exists>s'. state_of (completeTask host outcome s) = s'
          \<and> s' = s\<lparr>effects := effects s'\<rparr>
          \<and> formData s' = formData s
          \<and> initialDataRef s' = initialDataRef s
          \<and> isReadOnly s' = isReadOnly s)
   \<and> formData (state_of (updateField host k v (state_of (completeTask host outcome s))))
       = (formData s)(k \<mapsto> v)"
  by (auto simp: completeTask_eq updateField_eq isReadOnly_def)

theorem completeTask_leaves_form_editable_witness:
  "hostPresent (CompleteTask ''Approve'' (renderedFormData previewSession))
   \<and> (\<exists>s'. completeTask hostPresent ''Approve'' previewSession = Returned s'
          \<and> formData s' = formData previewSession)
   \<and> formData (state_of (andThen (completeTask hostPresent ''Approve'' previewSession)
        (updateField hostPresent ''reviewerComments'' (JStr ''late''))))
       = (formData previewSession)(''reviewerComments'' \<mapsto> JStr ''late'')"
proof -
  have h: "hostPresent (CompleteTask ''Approve'' (renderedFormData previewSession))"
    by (simp add: hostPresent_def)
  from completeTask_leaves_form_editable
         [of hostPresent "''Approve''" previewSession "''reviewerComments''" "JStr ''late''"] h
  show ?thesis
    by blast
qed

text \<open>
  The claim as written fails: with a host that accepts the completion, a later
  \<open>updateField\<close> still changes the snapshot.
\<close>

theorem updateField_after_completion:
  "hostPresent (CompleteTask ''Approve'' INITIAL_DATA)
   \<and> effects (state_of (run hostPresent [Complete ''Approve''] previewSession))
       = [TaskEvent (CompleteTask ''Approve'' INITIAL_DATA)]
   \<and> formData (state_of (run hostPresent [Complete ''Approve''] previewSession)) ''reviewerComments''
       = None
   \<and> formData (state_of (run hostPresent
         [Complete ''Approve'', UpdateField ''reviewerComments'' (JStr ''late'')] previewSession))
       ''reviewerComments'' = Some (JStr ''late'')"
  by (simp add: operation_eqs hostPresent_def previewSession_def
        useActionContext_def initialData_def INITIAL_DATA_def)

section \<open>Resetting the form\<close>

lemma initialDataRef_step:
  "initialDataRef (state_of (step host a s)) =
     (case hostSnapshot a of None \<Rightarrow> initialDataRef s | Some fd \<Rightarrow> fd)"
  by (cases a) (simp_all add: operation_eqs initialDataRef_onActionCenterData)

lemma initialDataRef_run:
  "initialDataRef (state_of (run host as s)) = lastBaseline (initialDataRef s) as"
proof (induction as arbitrary: s)
  case Nil
  show ?case by (simp add: lastBaseline_def)
next
  case (Cons a as)
  have "initialDataRef (state_of (run host (a # as) s))
          = initialDataRef (state_of (run host as (state_of (step host a s))))"
    by (simp only: run_Cons_state)
  also have "\<dots> = lastBaseline (initialDataRef (state_of (step host a s))) as"
    by (rule Cons.IH)
  also have "\<dots> = lastBaseline (initialDataRef s) (a # as)"
    by (simp add: lastBaseline_def initialDataRef_step split: option.splits)
  finally show ?case .
qed

text \<open>
  Claim C4. After any sequence of events of a session, \<open>resetForm\<close> returns, the
  snapshot is the baseline the specification names (the data of the last envelope that
  carried data, the caller's default when there was none), and one data-changed
  notification with that baseline is sent.
\<close>

theorem resetForm_restores_last_baseline:
  "\<exists>s'. resetForm host (state_of (run host as (useActionContext client options))) = Returned s'
     \<and> formData s' = lastBaseline (initialData options) as
     \<and> effects s' = effects (state_of (run host as (useActionContext client options)))
                      @ [TaskEvent (DataChanged (lastBaseline (initialData options) as))]"
proof -
  have "initialDataRef (state_of (run host as (useActionContext client options)))
          = lastBaseline (initialData options) as"
    by (simp add: initialDataRef_run useActionContext_def)
  then show ?thesis
    by (simp add: resetForm_eq)
qed

theorem resetForm_restores_last_baseline_witness:
  "\<exists>s'. resetForm hostAbsent (state_of (run hostAbsent
            [Mount, Receive aliceEnvelope, UpdateField ''reviewerComments'' (JStr ''ok'')]
            previewSession)) = Returned s'
     \<and> formData s' = aliceData \<and> formData s' \<noteq> INITIAL_DATA"
proof -
  have "lastBaseline INITIAL_DATA
          [Mount, Receive aliceEnvelope, UpdateField ''reviewerComments'' (JStr ''ok'')] = aliceData"
    by (simp add: lastBaseline_def aliceEnvelope_def emptyEnvelope_def)
  moreover have "aliceData \<noteq> INITIAL_DATA"
  proof
    assume "aliceData = INITIAL_DATA"
    then have "aliceData ''patientName'' = INITIAL_DATA ''patientName''" by simp
    then show False by (simp add: aliceData_def INITIAL_DATA_def)
  qed
  ultimately show ?thesis
    using resetForm_restores_last_baseline [of hostAbsent
        "[Mount, Receive aliceEnvelope, UpdateField ''reviewerComments'' (JStr ''ok'')]"
        envClient "Some INITIAL_DATA"]
    by (auto simp: previewSession_def initialData_def)
qed

section \<open>Where the read-only flag comes from\<close>

lemma isReadOnly_run:
  "isReadOnly (state_of (run host as (useActionContext client options))) = lastEnvelopeReadOnly as"
proof -
  have "taskData (useActionContext client options) = None"
    by (simp add: useActionContext_def)
  then show ?thesis
    using taskData_run [of host as "useActionContext client options"]
    by (simp add: isReadOnly_def lastEnvelopeReadOnly_def split: list.splits)
qed

lemma received_local: "isLocal a \<Longrightarrow> received a = None"
  by (cases a) simp_all

lemma received_all_local: "list_all isLocal as \<Longrightarrow> List.map_filter received as = []"
  by (induction as) (simp_all add: received_local)

text \<open>
  Claim C10. After any sequence of events of a session, \<open>isReadOnly\<close> is the flag of
  the envelope received last, and false when none was received or that envelope carries
  no flag; so it is false in a session with local actions only (preview mode). None of
  \<open>updateField\<close>, \<open>updateFormData\<close>, \<open>resetForm\<close>, \<open>completeTask\<close> and the mount
  effect changes it.
\<close>

theorem isReadOnly_from_last_envelope:
  "isReadOnly (state_of (run host as (useActionContext client options))) = lastEnvelopeReadOnly as
   \<and> (list_all isLocal as \<longrightarrow> \<not> isReadOnly (state_of (run host as (useActionContext client options))))
   \<and> isReadOnly (state_of (updateField host k v s)) = isReadOnly s
   \<and> isReadOnly (state_of (updateFormData host d s)) = isReadOnly s
   \<and> isReadOnly (state_of (resetForm host s)) = isReadOnly s
   \<and> isReadOnly (state_of (completeTask host outcome s)) = isReadOnly s
   \<and> isReadOnly (state_of (mountEffect host s)) = isReadOnly s"
proof -
  have "list_all isLocal as \<longrightarrow> \<not> lastEnvelopeReadOnly as"
    by (simp add: lastEnvelopeReadOnly_def received_all_local)
  then show ?thesis
    by (simp add: isReadOnly_run) (simp add: operation_eqs isReadOnly_def)
qed

theorem isReadOnly_from_last_envelope_witness:
  "list_all isLocal [Mount, UpdateField ''comments'' (JStr ''x''), Complete ''Approve'', Reset]
   \<and> \<not> isReadOnly (state_of (run hostAbsent
           [Mount, UpdateField ''comments'' (JStr ''x''), Complete ''Approve'', Reset] previewSession))
   \<and> isReadOnly (state_of (run hostPresent
           [Mount, Receive readOnlyEnvelope, UpdateField ''comments'' (JStr ''x''), Complete ''Approve'']
           previewSession))"
proof -
  have l: "list_all isLocal [Mount, UpdateField ''comments'' (JStr ''x''), Complete ''Approve'', Reset]"
    by simp
  have r: "lastEnvelopeReadOnly
             [Mount, Receive readOnlyEnvelope, UpdateField ''comments'' (JStr ''x''), Complete ''Approve'']"
    by (simp add: lastEnvelopeReadOnly_def readOnlyEnvelope_def emptyEnvelope_def)
  have a: "\<not> isReadOnly (state_of (run hostAbsent
              [Mount, UpdateField ''comments'' (JStr ''x''), Complete ''Approve'', Reset]
              (useActionContext envClient (Some INITIAL_DATA))))"
    using isReadOnly_from_last_envelope [of hostAbsent
          "[Mount, UpdateField ''comments'' (JStr ''x''), Complete ''Approve'', Reset]"
          envClient "Some INITIAL_DATA"] l
    by blast
  have b: "isReadOnly (state_of (run hostPresent
              [Mount, Receive readOnlyEnvelope, UpdateField ''comments'' (JStr ''x''), Complete ''Approve'']
              (useActionContext envClient (Some INITIAL_DATA))))"
    using isReadOnly_from_last_envelope [of hostPresent
          "[Mount, Receive readOnlyEnvelope, UpdateField ''comments'' (JStr ''x''), Complete ''Approve'']"
          envClient "Some INITIAL_DATA"] r
    by blast
  from l a b show ?thesis
    unfolding previewSession_def by blast
qed

section \<open>The handshake at session start\<close>

lemma handshake_count_step:
  assumes "e = TaskEvent GetTaskDetailsFromActionCenter \<or> e = TaskEvent InitializeInActionCenter"
    and "count_list (effects s) e \<le> (if isInitializedRef s then 1 else 0)"
  shows "count_list (effects (state_of (step host a s))) e
           \<le> (if isInitializedRef (state_of (step host a s)) then 1 else 0)"
  using assms by (cases a) (auto simp: operation_eqs split: if_splits)

lemma handshake_count_run:
  assumes "e = TaskEvent GetTaskDetailsFromActionCenter \<or> e = TaskEvent InitializeInActionCenter"
    and "count_list (effects s) e \<le> (if isInitializedRef s then 1 else 0)"
  shows "count_list (effects (state_of (run host as s))) e \<le> 1"
  using assms(2)
proof (induction as arbitrary: s)
  case Nil
  then show ?case by (simp split: if_splits)
next
  case (Cons a as)
  have "count_list (effects (state_of (step host a s))) e
           \<le> (if isInitializedRef (state_of (step host a s)) then 1 else 0)"
    using assms(1) Cons.prems by (rule handshake_count_step)
  then have "count_list (effects (state_of (run host as (state_of (step host a s))))) e \<le> 1"
    by (rule Cons.IH)
  then show ?case by (simp only: run_Cons_state)
qed

text \<open>
  Claim C9. Running the mount effect a second time changes nothing: two runs are one
  run. In any session, whatever its events and however often the effect runs, the
  subscription is registered at most once and the ready signal is sent at most once.
\<close>

theorem mountEffect_at_most_once:
  "andThen (mountEffect host s) (mountEffect host) = mountEffect host s
   \<and> count_list (effects (state_of (run host as (useActionContext client options))))
        (TaskEvent GetTaskDetailsFromActionCenter) \<le> 1
   \<and> count_list (effects (state_of (run host as (useActionContext client options))))
        (TaskEvent InitializeInActionCenter) \<le> 1"
proof -
  have i: "count_list (effects (useActionContext client options)) e
             \<le> (if isInitializedRef (useActionContext client options) then 1 else 0)" for e
    by (simp add: useActionContext_def)
  have "andThen (mountEffect host s) (mountEffect host) = mountEffect host s"
    by (simp add: mountEffect_eq)
  then show ?thesis
    using handshake_count_run [OF _ i, of "TaskEvent GetTaskDetailsFromActionCenter" host as]
          handshake_count_run [OF _ i, of "TaskEvent InitializeInActionCenter" host as]
    by simp
qed

theorem mountEffect_at_most_once_witness:
  "effects (state_of (run hostPresent [Mount, Mount] previewSession))
     = [TaskEvent GetTaskDetailsFromActionCenter, TaskEvent InitializeInActionCenter]
   \<and> run hostPresent [Mount, Mount] previewSession = run hostPresent [Mount] previewSession"
  using mountEffect_at_most_once [of hostPresent previewSession "[Mount, Mount]" envClient "Some INITIAL_DATA"]
  by (simp add: mountEffect_eq dispatch_def render_def hostPresent_def previewSession_def
        useActionContext_def)

section \<open>Credentials and token refresh\<close>

lemma hasCredentials_iff:
  "hasCredentials d \<longleftrightarrow>
     (\<exists>b org t k. ac_baseUrl d = Some b \<and> b \<noteq> [] \<and> ac_orgName d = Some org \<and> org \<noteq> []
        \<and> ac_tenantName d = Some t \<and> t \<noteq> [] \<and> ac_token d = Some k \<and> k \<noteq> [])"
  by (auto simp: hasCredentials_def truthy_def split: option.splits)

lemma sdk_onActionCenterData:
  "sdk (onActionCenterData d s) = sdk (tokenStep d (credentialStep d s))"
  by (simp add: callback_defs split: option.splits)

lemma sdkInitialized_onActionCenterData:
  "sdkInitialized (onActionCenterData d s) = sdkInitialized (tokenStep d (credentialStep d s))"
  by (simp add: callback_defs split: option.splits)

text \<open>
  Claim C6. The condition under which the callback initializes the client holds exactly
  when all four of \<open>baseUrl\<close>, \<open>orgName\<close>, \<open>tenantName\<close> and \<open>token\<close> are there
  (and not empty). From a session whose client was never initialized, the client is
  initialized by an envelope if and only if the envelope has all four; it is then built
  from them. An envelope without the full set initializes nothing: with a \<open>newToken\<close>
  the existing client gets the new token and is otherwise unchanged, without one the
  client is untouched.
\<close>

theorem credentials_all_or_nothing:
  "(hasCredentials d \<longleftrightarrow>
     (\<exists>b org t k. ac_baseUrl d = Some b \<and> b \<noteq> [] \<and> ac_orgName d = Some org \<and> org \<noteq> []
        \<and> ac_tenantName d = Some t \<and> t \<noteq> [] \<and> ac_token d = Some k \<and> k \<noteq> []))
   \<and> (\<not> sdkInitialized s \<longrightarrow> (sdkInitialized (onActionCenterData d s) \<longleftrightarrow> hasCredentials d))
   \<and> (hasCredentials d \<longrightarrow>
         sdkInitialized (onActionCenterData d s)
         \<and> baseUrl (sdk (onActionCenterData d s)) = the (ac_baseUrl d)
         \<and> orgName (sdk (onActionCenterData d s)) = the (ac_orgName d)
         \<and> tenantName (sdk (onActionCenterData d s)) = the (ac_tenantName d)
         \<and> secret (sdk (onActionCenterData d s))
             = (if truthy (ac_newToken d) then the (ac_newToken d) else the (ac_token d)))
   \<and> (\<not> hasCredentials d \<longrightarrow>
         sdkInitialized (onActionCenterData d s) = sdkInitialized s
         \<and> sdk (onActionCenterData d s)
             = (if truthy (ac_newToken d) then (sdk s)\<lparr>secret := the (ac_newToken d)\<rparr> else sdk s))"
  apply (simp only: hasCredentials_iff [symmetric] sdk_onActionCenterData sdkInitialized_onActionCenterData)
  apply (simp add: tokenStep_def credentialStep_def initializeSdk_def updateToken_def credentials_def)
  done

theorem credentials_all_or_nothing_witness:
  "sdkInitialized (onActionCenterData credentialEnvelope previewSession)
   \<and> sdk (onActionCenterData credentialEnvelope previewSession)
       = \<lparr>baseUrl = ''https://host'', orgName = ''org'', tenantName = ''tenant'', secret = ''t0''\<rparr>
   \<and> \<not> sdkInitialized (onActionCenterData partialEnvelope previewSession)
   \<and> sdk (onActionCenterData partialEnvelope previewSession) = envClient
   \<and> \<not> sdkInitialized (onActionCenterData tokenEnvelope previewSession)
   \<and> sdk (onActionCenterData tokenEnvelope previewSession) = envClient\<lparr>secret := ''t1''\<rparr>"
proof -
  have c: "hasCredentials credentialEnvelope"
    by (simp add: hasCredentials_def truthy_def credentialEnvelope_def emptyEnvelope_def)
  have p: "\<not> hasCredentials partialEnvelope"
    by (simp add: hasCredentials_def truthy_def partialEnvelope_def emptyEnvelope_def)
  have t: "\<not> hasCredentials tokenEnvelope"
    by (simp add: hasCredentials_def truthy_def tokenEnvelope_def emptyEnvelope_def)
  have s: "\<not> sdkInitialized previewSession" "sdk previewSession = envClient"
    by (simp_all add: previewSession_def useActionContext_def)
  from credentials_all_or_nothing [of credentialEnvelope previewSession] c
       credentials_all_or_nothing [of partialEnvelope previewSession] p
       credentials_all_or_nothing [of tokenEnvelope previewSession] t s
  show ?thesis
    by (simp add: truthy_def credentialEnvelope_def partialEnvelope_def tokenEnvelope_def
          emptyEnvelope_def envClient_def)
qed

section \<open>What the numeric control emits\<close>

text \<open>The model of the built-ins on known values: rounding, a tie, prefixes.\<close>

lemma parseFloat_tenth: "parseFloat ''0.1'' = Finite (3602879701896397 / 36028797018963968)"
  by code_simp

lemma parseInt10_tie_to_even: "parseInt10 ''9007199254740993'' = Finite 9007199254740992"
  by code_simp

lemma parseInt10_prefix: "parseInt10 '' -12px'' = Finite (- 12)"
  by code_simp

lemma parseFloat_no_number: "parseFloat ''abc'' = NaN"
  by code_simp

lemma validFloatingPointNumber_examples:
  "validFloatingPointNumber ''-1.5e+3''"
  "validFloatingPointNumber ''.5''"
  "\<not> validFloatingPointNumber ''5.''"
  "\<not> validFloatingPointNumber ''+5''"
  "\<not> validFloatingPointNumber '' 5''"
  "\<not> validFloatingPointNumber ''abc''"
  "\<not> validFloatingPointNumber []"
  by code_simp+

lemma numberInputValue_cases:
  "numberInputValue text = [] \<or> validFloatingPointNumber (numberInputValue text)"
  by (simp add: numberInputValue_def)

lemma value_3_7: "numberInputValue ''3.7'' = ''3.7''"
  by code_simp

lemma parseInt10_3_7: "parseInt10 ''3.7'' = Finite 3"
  by code_simp

lemma parseFloat_3_7: "parseFloat ''3.7'' = Finite (4165829655317709 / 1125899906842624)"
  by code_simp

lemma not_whole_3_7: "\<not> isWhole (Finite (4165829655317709 / 1125899906842624))"
proof -
  have "\<lfloor>(4165829655317709 :: rat) / 1125899906842624\<rfloor> = 3"
    by (rule floor_unique) simp_all
  then show ?thesis by simp
qed

text \<open>
  Claim C7, as the code has it. Clearing the control emits \<^verbatim>\<open>undefined\<close>, not 0.
  \<^verbatim>\<open>"3.7"\<close> in an integer field emits the whole number 3; \<^verbatim>\<open>"3.7"\<close> in another numeric
  field emits the double nearest to 3.7, which keeps the fraction. Text that is not a
  number is not held back: the input hands the handler the empty string, so a control
  that held a value emits \<^verbatim>\<open>undefined\<close> (an empty control has no change and emits
  nothing), and through \<open>updateField\<close>, which returns, the stored value becomes
  \<^verbatim>\<open>undefined\<close>.
\<close>

theorem NumberControl_emits:
  "(before \<noteq> [] \<longrightarrow> NumberControl_onChange isInteger before [] = [JUndefined])
   \<and> JUndefined \<noteq> JNum (Finite 0)
   \<and> (before \<noteq> ''3.7'' \<longrightarrow> NumberControl_onChange True before ''3.7'' = [JNum (Finite 3)])
   \<and> isWhole (Finite 3)
   \<and> (before \<noteq> ''3.7'' \<longrightarrow>
        NumberControl_onChange False before ''3.7''
          = [JNum (Finite (4165829655317709 / 1125899906842624))])
   \<and> \<not> isWhole (Finite (4165829655317709 / 1125899906842624))
   \<and> \<bar>4165829655317709 / 1125899906842624 - 37 / 10\<bar> \<le> (1 / 2 ^ 52 :: rat)
   \<and> (\<not> validFloatingPointNumber text \<longrightarrow>
        NumberControl_onChange isInteger before text = (if before = [] then [] else [JUndefined]))
   \<and> (\<exists>s'. updateField host k JUndefined s = Returned s' \<and> formData s' k = Some JUndefined)"
proof -
  have a: "before \<noteq> [] \<longrightarrow> NumberControl_onChange isInteger before [] = [JUndefined]"
    by (auto simp: NumberControl_onChange_def numberInputValue_def)
  have b: "before \<noteq> ''3.7'' \<longrightarrow> NumberControl_onChange True before ''3.7'' = [JNum (Finite 3)]"
    by (auto simp: NumberControl_onChange_def value_3_7 parseInt10_3_7)
  have c: "before \<noteq> ''3.7'' \<longrightarrow>
        NumberControl_onChange False before ''3.7''
          = [JNum (Finite (4165829655317709 / 1125899906842624))]"
    by (auto simp: NumberControl_onChange_def value_3_7 parseFloat_3_7)
  have d: "\<bar>4165829655317709 / 1125899906842624 - 37 / 10\<bar> \<le> (1 / 2 ^ 52 :: rat)"
    by simp
  have e: "\<not> validFloatingPointNumber text \<longrightarrow>
        NumberControl_onChange isInteger before text = (if before = [] then [] else [JUndefined])"
    by (auto simp: NumberControl_onChange_def numberInputValue_def)
  have f: "\<exists>s'. updateField host k JUndefined s = Returned s' \<and> formData s' k = Some JUndefined"
    by (simp add: updateField_eq)
  from a b c d e f not_whole_3_7 show ?thesis
    by simp
qed

theorem NumberControl_emits_witness:
  "''7'' \<noteq> [] \<and> ''7'' \<noteq> ''3.7'' \<and> \<not> validFloatingPointNumber ''7e''
   \<and> NumberControl_onChange True ''7'' [] = [JUndefined]
   \<and> NumberControl_onChange True ''7'' ''3.7'' = [JNum (Finite 3)]
   \<and> NumberControl_onChange True ''7'' ''7e'' = [JUndefined]"
proof -
  have v: "\<not> validFloatingPointNumber ''7e''"
    by code_simp
  from NumberControl_emits [of "''7''" True "''7e''"] v show ?thesis
    by simp
qed

text \<open>
  The claim as written fails: text that is not a number, left in a control that shows
  41, does make the handler emit an update, and the stored 41 is replaced by
  \<^verbatim>\<open>undefined\<close>. (And \<^verbatim>\<open>".5"\<close>, a number, makes an integer field emit \<^verbatim>\<open>NaN\<close>.)
\<close>

theorem NumberControl_emits_undefined:
  "NumberControl_onChange False ''41'' ''41e'' = [JUndefined]
   \<and> NumberControl_onChange True ''41'' ''abc'' = [JUndefined]
   \<and> formData (state_of (updateField hostAbsent ''age'' (JNum (Finite 41)) previewSession)) ''age''
       = Some (JNum (Finite 41))
   \<and> formData (state_of (updateField hostAbsent ''age'' JUndefined
        (state_of (updateField hostAbsent ''age'' (JNum (Finite 41)) previewSession)))) ''age''
       = Some JUndefined
   \<and> NumberControl_onChange True [] ''.5'' = [JNum NaN]"
proof -
  have a: "NumberControl_onChange False ''41'' ''41e'' = [JUndefined]"
    by code_simp
  have b: "NumberControl_onChange True ''41'' ''abc'' = [JUndefined]"
    by code_simp
  have c: "NumberControl_onChange True [] ''.5'' = [JNum NaN]"
    by code_simp
  from a b c show ?thesis
    by (simp add: updateField_eq)
qed

end
